theory Spec2Isabelle
  imports
    Main
    "HOL-Library.Char_ord"
    "HOL-Library.List_Lexorder"
    "HOL-Library.Multiset"
begin

section \<open>Strings as Python sees them\<close>

text \<open>
  The scripts \<^verbatim>\<open>generate_api_optimized_dataset.py\<close> and \<^verbatim>\<open>generate_unified_dataset.py\<close>
  hold the same extraction engine (the two copies differ in comments, in one docstring
  and in the text of two \<^verbatim>\<open>print\<close> calls only); the definitions below follow it
  function by function. A Python \<^verbatim>\<open>str\<close> is modelled as a \<^typ>\<open>string\<close> whose
  characters are the code points below 256, with the character classes that Python
  gives them; text with larger code points is outside the model. Python integers are
  \<^typ>\<open>int\<close>. An exception is a value \<open>Inl e\<close> of the result. The \<^verbatim>\<open>print\<close> calls
  are not modelled.
\<close>

definition is_space :: "char \<Rightarrow> bool" where
  \<comment> \<open>\<^verbatim>\<open>str.isspace\<close> and the class \<^verbatim>\<open>\s\<close> of \<^verbatim>\<open>re\<close> on code points below 256\<close>
  "is_space c = ((of_char c :: nat) \<in> {9, 10, 11, 12, 13, 28, 29, 30, 31, 32, 133, 160})"

definition is_digit :: "char \<Rightarrow> bool" where
  \<comment> \<open>the class \<^verbatim>\<open>[0-9]\<close>\<close>
  "is_digit c = (let n = (of_char c :: nat) in 48 \<le> n \<and> n \<le> 57)"

definition is_word :: "char \<Rightarrow> bool" where
  \<comment> \<open>the class \<^verbatim>\<open>\w\<close> of \<^verbatim>\<open>re\<close> on a \<^verbatim>\<open>str\<close> pattern: alphanumeric or underscore\<close>
  "is_word c = (let n = (of_char c :: nat) in
     (48 \<le> n \<and> n \<le> 57) \<or> (65 \<le> n \<and> n \<le> 90) \<or> n = 95 \<or> (97 \<le> n \<and> n \<le> 122)
     \<or> n = 170 \<or> n = 178 \<or> n = 179 \<or> n = 181 \<or> n = 185 \<or> n = 186
     \<or> (188 \<le> n \<and> n \<le> 190) \<or> (192 \<le> n \<and> n \<le> 214) \<or> (216 \<le> n \<and> n \<le> 246)
     \<or> 248 \<le> n)"

definition strip :: "string \<Rightarrow> string" where
  \<comment> \<open>\<^verbatim>\<open>s.strip()\<close>\<close>
  "strip s = rev (dropWhile is_space (rev (dropWhile is_space s)))"

fun startswith :: "string \<Rightarrow> string \<Rightarrow> bool" where
  \<comment> \<open>\<^verbatim>\<open>s.startswith(p)\<close>\<close>
  "startswith s [] = True"
| "startswith [] (p # ps) = False"
| "startswith (c # cs) (p # ps) = (c = p \<and> startswith cs ps)"

fun contains :: "string \<Rightarrow> string \<Rightarrow> bool" where
  \<comment> \<open>\<^verbatim>\<open>p in s\<close>\<close>
  "contains [] p = (p = [])"
| "contains (c # cs) p = (startswith (c # cs) p \<or> contains cs p)"

fun join :: "string \<Rightarrow> string list \<Rightarrow> string" where
  \<comment> \<open>\<^verbatim>\<open>sep.join(xs)\<close>\<close>
  "join sep [] = []"
| "join sep [x] = x"
| "join sep (x # y # ys) = x @ sep @ join sep (y # ys)"

fun split_on :: "char \<Rightarrow> string \<Rightarrow> string list" where
  \<comment> \<open>\<^verbatim>\<open>s.split(c)\<close> for a separator of one character\<close>
  "split_on c [] = [[]]"
| "split_on c (x # xs) =
     (if x = c then [] # split_on c xs
      else (case split_on c xs of [] \<Rightarrow> [[x]] | p # ps \<Rightarrow> (x # p) # ps))"

definition split1 :: "string \<Rightarrow> string \<times> string option" where
  \<comment> \<open>\<^verbatim>\<open>s.split(" ", 1)\<close>: the part before the first space, and the part after it when
      there is a space (the Python list has one or two entries)\<close>
  "split1 s = (takeWhile (\<lambda>c. c \<noteq> CHR '' '') s,
               if CHR '' '' \<in> set s then Some (tl (dropWhile (\<lambda>c. c \<noteq> CHR '' '') s)) else None)"

definition newline :: string where
  "newline = [CHR 0x0A]"

section \<open>Regular expressions\<close>

text \<open>
  \<^verbatim>\<open>re\<close> matches by backtracking: an alternation tries its branches from left to
  right, a greedy quantifier tries the longest repetition first, and the match returned
  is the first path that succeeds. Each pattern element below returns the list of its
  ways to match at the front of the text, in that order of preference, each with the
  text that remains; a pattern is the sequence of its elements, and its match is the
  head of the resulting list.
\<close>

definition rx_lit :: "string \<Rightarrow> string \<Rightarrow> string list" where
  "rx_lit p s = (if startswith s p then [drop (length p) s] else [])"

definition rx_alt :: "string list \<Rightarrow> string \<Rightarrow> (string \<times> string) list" where
  \<comment> \<open>\<^verbatim>\<open>(p1|p2|...)\<close>, capturing\<close>
  "rx_alt ps s = [(p, drop (length p) s). p \<leftarrow> ps, startswith s p]"

definition rx_star :: "(char \<Rightarrow> bool) \<Rightarrow> string \<Rightarrow> string list" where
  \<comment> \<open>\<^verbatim>\<open>C*\<close> for a character class\<close>
  "rx_star cls s = [drop k s. k \<leftarrow> rev [0 ..< Suc (length (takeWhile cls s))]]"

definition rx_plus :: "(char \<Rightarrow> bool) \<Rightarrow> string \<Rightarrow> (string \<times> string) list" where
  \<comment> \<open>\<^verbatim>\<open>(C+)\<close> for a character class, capturing\<close>
  "rx_plus cls s = [(take k s, drop k s). k \<leftarrow> rev [1 ..< Suc (length (takeWhile cls s))]]"

definition rx_word_end :: "string \<Rightarrow> string list" where
  \<comment> \<open>\<^verbatim>\<open>\b\<close> after a word character\<close>
  "rx_word_end s = (case s of [] \<Rightarrow> [s] | c # _ \<Rightarrow> if is_word c then [] else [s])"

definition rx_first :: "'a list \<Rightarrow> 'a option" where
  "rx_first ms = (case ms of [] \<Rightarrow> None | m # _ \<Rightarrow> Some m)"

fun rx_search :: "(string \<Rightarrow> 'a list) \<Rightarrow> string \<Rightarrow> 'a option" where
  \<comment> \<open>\<^verbatim>\<open>re.search\<close>: the match at the leftmost position that has one\<close>
  "rx_search f [] = rx_first (f [])"
| "rx_search f (c # cs) = (case f (c # cs) of [] \<Rightarrow> rx_search f cs | m # _ \<Rightarrow> Some m)"

definition visibility :: "string list" where
  "visibility = [''public'', ''open'', ''internal'', ''fileprivate'', ''private'']"

definition rx_visibility :: "string \<Rightarrow> string list" where
  \<comment> \<open>\<^verbatim>\<open>(public|open|internal|fileprivate|private)?\<close>\<close>
  "rx_visibility s = map snd (rx_alt visibility s) @ [s]"

definition rx_static_class :: "string \<Rightarrow> string list" where
  \<comment> \<open>\<^verbatim>\<open>(static\s+|class\s+)?\<close>\<close>
  "rx_static_class s =
     [r2. r1 \<leftarrow> rx_lit ''static'' s, (w, r2) \<leftarrow> rx_plus is_space r1]
     @ [r2. r1 \<leftarrow> rx_lit ''class'' s, (w, r2) \<leftarrow> rx_plus is_space r1]
     @ [s]"

definition type_decl_re :: "string \<Rightarrow> (string \<times> string) option" where
  \<comment> \<open>\<^verbatim>\<open>^(public|open|internal|fileprivate|private)?\s*(actor|class|struct|enum|protocol)\s+(\w+)\<close>;
      the result holds groups 2 and 3\<close>
  "type_decl_re s = rx_first
     [(kw, nm).
        r1 \<leftarrow> rx_visibility s,
        r2 \<leftarrow> rx_star is_space r1,
        (kw, r3) \<leftarrow> rx_alt [''actor'', ''class'', ''struct'', ''enum'', ''protocol''] r2,
        (w, r4) \<leftarrow> rx_plus is_space r3,
        (nm, r5) \<leftarrow> rx_plus is_word r4]"

definition func_decl_re :: "string \<Rightarrow> string option" where
  \<comment> \<open>\<^verbatim>\<open>^(public|open|internal|fileprivate|private)?\s*(static\s+|class\s+)?func\s+(\w+)\<close>;
      the result holds group 3\<close>
  "func_decl_re s = rx_first
     [nm.
        r1 \<leftarrow> rx_visibility s,
        r2 \<leftarrow> rx_star is_space r1,
        r3 \<leftarrow> rx_static_class r2,
        r4 \<leftarrow> rx_lit ''func'' r3,
        (w, r5) \<leftarrow> rx_plus is_space r4,
        (nm, r6) \<leftarrow> rx_plus is_word r5]"

definition init_decl_re :: "string \<Rightarrow> bool" where
  \<comment> \<open>\<^verbatim>\<open>^(public|open|internal|fileprivate|private)?\s*(static\s+|class\s+)?init\b\<close>\<close>
  "init_decl_re s = (
     [r5.
        r1 \<leftarrow> rx_visibility s,
        r2 \<leftarrow> rx_star is_space r1,
        r3 \<leftarrow> rx_static_class r2,
        r4 \<leftarrow> rx_lit ''init'' r3,
        r5 \<leftarrow> rx_word_end r4] \<noteq> [])"

definition prop_decl_re :: "string \<Rightarrow> string option" where
  \<comment> \<open>\<^verbatim>\<open>^(public|open|internal|fileprivate|private)?\s*(static\s+|class\s+)?(var|let)\s+(\w+)\<close>;
      the result holds group 4\<close>
  "prop_decl_re s = rx_first
     [nm.
        r1 \<leftarrow> rx_visibility s,
        r2 \<leftarrow> rx_star is_space r1,
        r3 \<leftarrow> rx_static_class r2,
        (kw, r4) \<leftarrow> rx_alt [''var'', ''let''] r3,
        (w, r5) \<leftarrow> rx_plus is_space r4,
        (nm, r6) \<leftarrow> rx_plus is_word r5]"

definition rx_version :: "string \<Rightarrow> (string \<times> string) list" where
  \<comment> \<open>\<^verbatim>\<open>([0-9]+(?:\.[0-9]+)?)\<close>, capturing\<close>
  "rx_version s =
     [(d1 @ d2, r2).
        (d1, r1) \<leftarrow> rx_plus is_digit s,
        (d2, r2) \<leftarrow> [(CHR ''.'' # d, r'). r \<leftarrow> rx_lit ''.'' r1, (d, r') \<leftarrow> rx_plus is_digit r]
                     @ [([], r1)]]"

definition direct_re :: "string \<Rightarrow> string option" where
  \<comment> \<open>\<^verbatim>\<open>re.search(r"iOS\s+([0-9]+(?:\.[0-9]+)?)", line)\<close>; the result holds group 1\<close>
  "direct_re line = rx_search (\<lambda>s.
     [v.
        r1 \<leftarrow> rx_lit ''iOS'' s,
        (w, r2) \<leftarrow> rx_plus is_space r1,
        (v, r3) \<leftarrow> rx_version r2]) line"

definition introduced_re :: "string \<Rightarrow> string option" where
  \<comment> \<open>\<^verbatim>\<open>re.search(r"introduced:\s*([0-9]+(?:\.[0-9]+)?)", line)\<close>; the result holds group 1\<close>
  "introduced_re line = rx_search (\<lambda>s.
     [v.
        r1 \<leftarrow> rx_lit ''introduced:'' s,
        r2 \<leftarrow> rx_star is_space r1,
        (v, r3) \<leftarrow> rx_version r2]) line"

section \<open>Versions and availability\<close>

datatype error = ValueError | UnicodeDecodeError | OSError

definition decimal :: "string \<Rightarrow> int" where
  \<comment> \<open>the number that a text of decimal digits writes\<close>
  "decimal s = foldl (\<lambda>a c. 10 * a + (int (of_char c) - 48)) 0 s"

definition py_int :: "string \<Rightarrow> int option" where
  \<comment> \<open>\<^verbatim>\<open>int(s)\<close> on the texts that can reach it: a non-empty text of decimal digits gives
      the number it writes, and \<open>None\<close> stands for the \<^verbatim>\<open>ValueError\<close> that \<^verbatim>\<open>int\<close>
      raises, as on the empty text. Texts with other characters never reach \<^verbatim>\<open>int\<close>
      (group 1 of a version pattern holds digits and at most one dot); the model
      counts them as errors. The interpreter's optional limit on the number of digits
      is not modelled.\<close>
  "py_int s = (if s \<noteq> [] \<and> list_all is_digit s then Some (decimal s) else None)"

definition version_to_tuple :: "string \<Rightarrow> error + (int \<times> int)" where
  "version_to_tuple text =
     (let parts = split_on CHR ''.'' (strip text) in
      case (case parts of [] \<Rightarrow> Some 0 | p # _ \<Rightarrow> py_int p) of
        None \<Rightarrow> Inl ValueError
      | Some major \<Rightarrow>
          (case (case parts of _ # q # _ \<Rightarrow> py_int q | _ \<Rightarrow> Some 0) of
             None \<Rightarrow> Inl ValueError
           | Some minor \<Rightarrow> Inr (major, minor)))"

definition tuple_ge :: "int \<times> int \<Rightarrow> int \<times> int \<Rightarrow> bool" where
  \<comment> \<open>\<^verbatim>\<open>>=\<close> on pairs: Python compares tuples lexicographically\<close>
  "tuple_ge v t = (fst t < fst v \<or> (fst v = fst t \<and> snd t \<le> snd v))"

definition is_version_at_least :: "(int \<times> int) option \<Rightarrow> int \<times> int \<Rightarrow> bool" where
  "is_version_at_least version target =
     (case version of None \<Rightarrow> False | Some v \<Rightarrow> tuple_ge v target)"

definition MIN_IOS_VERSION :: "int \<times> int" where
  "MIN_IOS_VERSION = (17, 0)"

type_synonym verdict = "(int \<times> int) option \<times> bool \<times> bool"

fun parse_loop :: "verdict \<Rightarrow> string list \<Rightarrow> error + verdict" where
  \<comment> \<open>the \<^verbatim>\<open>for raw in avail_lines\<close> loop of \<^verbatim>\<open>parse_ios_availability\<close>, on its three variables\<close>
  "parse_loop v [] = Inr v"
| "parse_loop (introduced, deprecated, unavailable) (raw # rest) =
     (let line = strip raw in
      if \<not> contains line ''iOS'' then parse_loop (introduced, deprecated, unavailable) rest
      else
        let unavailable' = (unavailable \<or> contains line ''unavailable'');
            deprecated' = (deprecated \<or> contains line ''deprecated'' \<or> contains line ''obsoleted'')
        in case direct_re line of
             Some g \<Rightarrow>
               (case version_to_tuple g of
                  Inl e \<Rightarrow> Inl e
                | Inr v \<Rightarrow> parse_loop (Some v, deprecated', unavailable') rest)
           | None \<Rightarrow>
               (case introduced_re line of
                  Some g \<Rightarrow>
                    (case version_to_tuple g of
                       Inl e \<Rightarrow> Inl e
                     | Inr v \<Rightarrow> parse_loop (Some v, deprecated', unavailable') rest)
                | None \<Rightarrow> parse_loop (introduced, deprecated', unavailable') rest))"

definition parse_ios_availability :: "string list \<Rightarrow> error + verdict" where
  "parse_ios_availability avail_lines = parse_loop (None, False, False) avail_lines"

section \<open>Documentation text and normalisation\<close>

definition emit_newlines :: "nat \<Rightarrow> string" where
  "emit_newlines n = (if 3 \<le> n then newline @ newline else concat (replicate n newline))"

fun collapse_newlines :: "nat \<Rightarrow> string \<Rightarrow> string" where
  \<comment> \<open>\<^verbatim>\<open>re.sub(r"\n{3,}", "\n\n", doc)\<close>; the number counts the newlines of the run being read\<close>
  "collapse_newlines n [] = emit_newlines n"
| "collapse_newlines n (c # cs) =
     (if c = CHR 0x0A then collapse_newlines (Suc n) cs
      else emit_newlines n @ c # collapse_newlines 0 cs)"

definition clean_doc_lines :: "string list \<Rightarrow> string" where
  "clean_doc_lines doc_lines =
     (let cleaned = map (\<lambda>line. strip (dropWhile (\<lambda>c. c = CHR ''/'') line)) doc_lines;
          doc = strip (join newline cleaned)
      in collapse_newlines 0 doc)"

function strip_attributes :: "string \<Rightarrow> string" where
  \<comment> \<open>the first \<^verbatim>\<open>while\<close> of \<^verbatim>\<open>normalize_line\<close>\<close>
  "strip_attributes stripped =
     (if startswith stripped ''@'' \<and> CHR '' '' \<in> set stripped
      then (case snd (split1 stripped) of
              Some t \<Rightarrow> strip_attributes (strip t)
            | None \<Rightarrow> stripped)
      else stripped)"
  by pat_completeness auto
termination
proof (relation "measure length")
  show "wf (measure length)" by simp
next
  fix stripped t
  assume a: "snd (split1 stripped) = Some t"
  then have m: "CHR '' '' \<in> set stripped"
    and t: "t = tl (dropWhile (\<lambda>c. c \<noteq> CHR '' '') stripped)"
    by (auto simp: split1_def split: if_splits)
  from m have "dropWhile (\<lambda>c. c \<noteq> CHR '' '') stripped \<noteq> []" by auto
  then have "length t < length (dropWhile (\<lambda>c. c \<noteq> CHR '' '') stripped)"
    using t by (cases "dropWhile (\<lambda>c. c \<noteq> CHR '' '') stripped") auto
  also have "\<dots> \<le> length stripped" by (rule length_dropWhile_le)
  finally have lt: "length t < length stripped" .
  have "length (strip t) \<le> length (dropWhile is_space t)"
    unfolding strip_def by (metis length_dropWhile_le length_rev)
  also have "\<dots> \<le> length t" by (rule length_dropWhile_le)
  finally show "(strip t, stripped) \<in> measure length" using lt by simp
qed

declare strip_attributes.simps [simp del]

definition leading_modifiers :: "string list" where
  "leading_modifiers = [''nonisolated'', ''inlinable'', ''convenience'', ''mutating'',
     ''consuming'', ''borrowing'', ''isolated'', ''rethrows'']"

function strip_modifiers :: "string \<Rightarrow> string" where
  \<comment> \<open>the second \<^verbatim>\<open>while\<close> of \<^verbatim>\<open>normalize_line\<close>\<close>
  "strip_modifiers stripped =
     (if fst (split1 stripped) \<in> set leading_modifiers
      then strip_modifiers (case snd (split1 stripped) of Some t \<Rightarrow> t | None \<Rightarrow> [])
      else stripped)"
  by pat_completeness auto
termination
proof (relation "measure length")
  show "wf (measure length)" by simp
next
  fix stripped
  assume m: "fst (split1 stripped) \<in> set leading_modifiers"
  show "(case snd (split1 stripped) of Some t \<Rightarrow> t | None \<Rightarrow> [], stripped) \<in> measure length"
  proof (cases "snd (split1 stripped)")
    case None
    from m have "fst (split1 stripped) \<noteq> []" by (auto simp: leading_modifiers_def)
    then have "stripped \<noteq> []" by (auto simp: split1_def)
    with None show ?thesis by simp
  next
    case (Some t)
    then have m: "CHR '' '' \<in> set stripped"
      and t: "t = tl (dropWhile (\<lambda>c. c \<noteq> CHR '' '') stripped)"
      by (auto simp: split1_def split: if_splits)
    from m have "dropWhile (\<lambda>c. c \<noteq> CHR '' '') stripped \<noteq> []" by auto
    then have "length t < length (dropWhile (\<lambda>c. c \<noteq> CHR '' '') stripped)"
      using t by (cases "dropWhile (\<lambda>c. c \<noteq> CHR '' '') stripped") auto
    also have "\<dots> \<le> length stripped" by (rule length_dropWhile_le)
    finally show ?thesis using Some by simp
  qed
qed

declare strip_modifiers.simps [simp del]

definition normalize_line :: "string \<Rightarrow> string" where
  "normalize_line line = strip_modifiers (strip_attributes (strip line))"



section \<open>The declaration extractor\<close>

record ApiElement =
  name :: string
  kind :: string
  signature :: string
  doc :: string
  ios_introduced :: "(int \<times> int) option"
  deprecated :: bool
  unavailable :: bool
  source_file :: string
  parent_type :: "string option"

definition full_name :: "ApiElement \<Rightarrow> string" where
  "full_name e =
     (case parent_type e of
        Some p \<Rightarrow> if p \<noteq> [] \<and> kind e \<in> {''func'', ''property''} then p @ ''.'' @ name e else name e
      | None \<Rightarrow> name e)"

text \<open>
  The local variables of \<^verbatim>\<open>extract_api_elements\<close> that live across lines form the
  state of the scan. The top of \<^verbatim>\<open>type_stack\<close> is its last entry, as in the source.
  The body of the loop over the lines is \<open>scan_line\<close>; its parts are \<open>match_decl\<close>
  (the chain of pattern tests), \<open>emit\<close> (the construction of the element under the
  eligibility test), \<open>update_nesting\<close> (brace counting, push and pops) and
  \<open>after_nesting\<close> (the two tests that end the body). The loop is \<open>scan_lines\<close>, and
  \<open>extract_lines\<close> is the function from the list of lines on.
\<close>

record scan_state =
  elements :: "ApiElement list"
  doc_lines :: "string list"
  avail_lines :: "string list"
  type_stack :: "(string \<times> int) list"
  brace_depth :: int

definition init_state :: scan_state where
  "init_state = \<lparr>elements = [], doc_lines = [], avail_lines = [], type_stack = [], brace_depth = 0\<rparr>"

definition match_decl :: "string \<Rightarrow> (string \<times> string) option" where
  \<comment> \<open>the \<^verbatim>\<open>if type_match ... elif func_match ... elif init ... elif prop_match\<close> chain:
      \<^verbatim>\<open>(element_kind, element_name)\<close>, or \<open>None\<close> when both stay \<^verbatim>\<open>None\<close>\<close>
  "match_decl normalized =
     (case type_decl_re normalized of
        Some (kw, nm) \<Rightarrow> Some (kw, nm)
      | None \<Rightarrow>
          (case func_decl_re normalized of
             Some nm \<Rightarrow> Some (''func'', nm)
           | None \<Rightarrow>
               if init_decl_re normalized then Some (''func'', ''init'')
               else (case prop_decl_re normalized of
                       Some nm \<Rightarrow> Some (''property'', nm)
                     | None \<Rightarrow> None)))"

definition truthy_decl :: "(string \<times> string) option \<Rightarrow> bool" where
  \<comment> \<open>\<^verbatim>\<open>element_kind and element_name\<close>: both set and neither the empty text\<close>
  "truthy_decl m = (case m of None \<Rightarrow> False | Some (k, n) \<Rightarrow> k \<noteq> [] \<and> n \<noteq> [])"

definition no_kind :: "(string \<times> string) option \<Rightarrow> bool" where
  \<comment> \<open>\<^verbatim>\<open>not element_kind\<close>\<close>
  "no_kind m = (case m of None \<Rightarrow> True | Some (k, n) \<Rightarrow> k = [])"

definition top_type :: "(string \<times> int) list \<Rightarrow> string option" where
  \<comment> \<open>\<^verbatim>\<open>type_stack[-1][0] if type_stack else None\<close>\<close>
  "top_type st = (if st = [] then None else Some (fst (last st)))"

function pop_types :: "(string \<times> int) list \<Rightarrow> int \<Rightarrow> (string \<times> int) list" where
  \<comment> \<open>\<^verbatim>\<open>while type_stack and brace_depth < type_stack[-1][1]: type_stack.pop()\<close>\<close>
  "pop_types st depth =
     (if st \<noteq> [] \<and> depth < snd (last st) then pop_types (butlast st) depth else st)"
  by pat_completeness auto
termination
  by (relation "measure (\<lambda>(st, depth). length st)") auto

declare pop_types.simps [simp del]

definition emit :: "string \<Rightarrow> scan_state \<Rightarrow> string \<Rightarrow> string \<Rightarrow> string \<Rightarrow> verdict \<Rightarrow> ApiElement list" where
  \<comment> \<open>the elements that a matched declaration line adds: one when the eligibility test
      passes, none otherwise\<close>
  "emit swift_file s stripped element_kind element_name v =
     (case v of (introduced, dep, unavail) \<Rightarrow>
        if is_version_at_least introduced MIN_IOS_VERSION \<and> \<not> dep \<and> \<not> unavail
        then [\<lparr>name = element_name, kind = element_kind,
               signature = join newline (map strip (avail_lines s) @ [stripped]),
               doc = clean_doc_lines (doc_lines s),
               ios_introduced = introduced, deprecated = dep, unavailable = unavail,
               source_file = swift_file, parent_type = top_type (type_stack s)\<rparr>]
        else [])"

definition update_nesting :: "string \<Rightarrow> (string \<times> string) option \<Rightarrow> scan_state \<Rightarrow> scan_state" where
  \<comment> \<open>brace counting, the push of a type that opens a brace, and the pops; the push reads
      \<^verbatim>\<open>type_match\<close>, which is set exactly when the kind is one of the five type keywords\<close>
  "update_nesting line type_match s =
     (let open_braces = count_list line CHR ''{'';
          close_braces = count_list line CHR ''}'';
          depth = brace_depth s + (int open_braces - int close_braces);
          pushed = (case type_match of
                      Some (kw, nm) \<Rightarrow>
                        if 0 < open_braces then type_stack s @ [(nm, depth)] else type_stack s
                    | None \<Rightarrow> type_stack s)
      in s\<lparr>brace_depth := depth, type_stack := pop_types pushed depth\<rparr>)"

definition after_nesting :: "string \<Rightarrow> (string \<times> string) option \<Rightarrow> scan_state \<Rightarrow> scan_state" where
  \<comment> \<open>the end of the loop body: an attribute line without a declaration keeps the
      buffers, any other text that is not a comment clears them\<close>
  "after_nesting stripped m s =
     (if startswith stripped ''@'' \<and> no_kind m then s
      else if no_kind m \<and> stripped \<noteq> [] \<and> \<not> startswith stripped ''//''
      then s\<lparr>doc_lines := [], avail_lines := []\<rparr>
      else s)"

definition scan_line :: "string \<Rightarrow> scan_state \<Rightarrow> string \<Rightarrow> error + scan_state" where
  \<comment> \<open>the body of \<^verbatim>\<open>for line in lines\<close>\<close>
  "scan_line swift_file s line =
     (let stripped = strip line in
      if startswith stripped ''///'' then Inr (s\<lparr>doc_lines := doc_lines s @ [stripped]\<rparr>)
      else if startswith stripped ''@available'' then Inr (s\<lparr>avail_lines := avail_lines s @ [stripped]\<rparr>)
      else
        let normalized = normalize_line stripped;
            type_match = type_decl_re normalized;
            m = match_decl normalized
        in case m of
             Some (element_kind, element_name) \<Rightarrow>
               if truthy_decl m then
                 (case parse_ios_availability (avail_lines s) of
                    Inl e \<Rightarrow> Inl e
                  | Inr v \<Rightarrow>
                      Inr (after_nesting stripped m
                             (update_nesting line type_match
                                (s\<lparr>elements := elements s @ emit swift_file s stripped element_kind element_name v,
                                   doc_lines := [], avail_lines := []\<rparr>))))
               else Inr (after_nesting stripped m (update_nesting line type_match s))
           | None \<Rightarrow> Inr (after_nesting stripped m (update_nesting line type_match s)))"

fun scan_lines :: "string \<Rightarrow> scan_state \<Rightarrow> string list \<Rightarrow> error + scan_state" where
  "scan_lines swift_file s [] = Inr s"
| "scan_lines swift_file s (line # rest) =
     (case scan_line swift_file s line of
        Inl e \<Rightarrow> Inl e
      | Inr s' \<Rightarrow> scan_lines swift_file s' rest)"

definition extract_lines :: "string \<Rightarrow> string list \<Rightarrow> error + ApiElement list" where
  \<comment> \<open>\<^verbatim>\<open>extract_api_elements\<close> from the list \<^verbatim>\<open>lines\<close> on\<close>
  "extract_lines swift_file lines =
     (case scan_lines swift_file init_state lines of Inl e \<Rightarrow> Inl e | Inr s \<Rightarrow> Inr (elements s))"



section \<open>Files and the batch\<close>

definition is_linebreak :: "char \<Rightarrow> bool" where
  \<comment> \<open>the line boundaries of \<^verbatim>\<open>str.splitlines\<close> below 256\<close>
  "is_linebreak c = ((of_char c :: nat) \<in> {10, 11, 12, 13, 28, 29, 30, 133})"

fun splitlines_from :: "bool \<Rightarrow> string \<Rightarrow> string list" where
  \<comment> \<open>the flag says that the character before was a carriage return that ended a line,
      so that a line feed now belongs to the same boundary\<close>
  "splitlines_from after_cr [] = []"
| "splitlines_from after_cr (c # cs) =
     (if after_cr \<and> c = CHR 0x0A then splitlines_from False cs
      else if is_linebreak c then [] # splitlines_from (c = CHR 0x0D) cs
      else (case splitlines_from False cs of [] \<Rightarrow> [[c]] | l # ls \<Rightarrow> (c # l) # ls))"

definition splitlines :: "string \<Rightarrow> string list" where
  "splitlines text = splitlines_from False text"

text \<open>A path of the directory: its name and what \<^verbatim>\<open>read_text(encoding="utf-8")\<close>
  gives for it, the decoded text or the exception raised.\<close>

record path =
  file_name :: string
  read_text :: "error + string"

definition extract_api_elements :: "path \<Rightarrow> error + ApiElement list" where
  "extract_api_elements swift_file =
     (case read_text swift_file of
        Inl e \<Rightarrow> Inl e
      | Inr text \<Rightarrow> extract_lines (file_name swift_file) (splitlines text))"

definition endswith :: "string \<Rightarrow> string \<Rightarrow> bool" where
  "endswith s p = startswith (rev s) (rev p)"

definition glob_swift :: "path list \<Rightarrow> path list" where
  \<comment> \<open>\<^verbatim>\<open>api_dir.glob("*.swift")\<close> on the entries of the directory, in the order in which
      the file system lists them\<close>
  "glob_swift entries = filter (\<lambda>f. endswith (file_name f) ''.swift'') entries"

fun load_loop :: "ApiElement list \<Rightarrow> path list \<Rightarrow> error + ApiElement list" where
  \<comment> \<open>the \<^verbatim>\<open>for swift_file in ...\<close> loop; no handler surrounds the call of
      \<^verbatim>\<open>extract_api_elements\<close>, so its exception ends the loop\<close>
  "load_loop acc [] = Inr acc"
| "load_loop acc (swift_file # rest) =
     (case extract_api_elements swift_file of
        Inl e \<Rightarrow> Inl e
      | Inr file_elements \<Rightarrow> load_loop (acc @ file_elements) rest)"

definition load_all_api_elements :: "path list \<Rightarrow> error + ApiElement list" where
  \<comment> \<open>the argument lists the entries of \<^verbatim>\<open>api_dir\<close>; paths of one directory compare
      by their names\<close>
  "load_all_api_elements api_dir = load_loop [] (sort_key file_name (glob_swift api_dir))"


definition nesting_ok :: "scan_state \<Rightarrow> bool" where
  \<comment> \<open>the depth recorded on top of the stack does not exceed the brace depth\<close>
  "nesting_ok s = (type_stack s = [] \<or> snd (last (type_stack s)) \<le> brace_depth s)"

section \<open>The availability interpreter as the specification words it\<close>





section \<open>The shape of what the patterns capture\<close>









lemma after_nesting_truthy [simp]: "truthy_decl m \<Longrightarrow> after_nesting stripped m s = s"
  by (auto simp: after_nesting_def truthy_decl_def no_kind_def split: option.splits)


















section \<open>The availability interpreter\<close>













section \<open>Eligibility\<close>

lemma elements_update_nesting [simp]: "elements (update_nesting line tm s) = elements s"
  by (simp add: update_nesting_def Let_def)




section \<open>Read failures\<close>

lemma load_loop_fails: "f \<in> set fs \<Longrightarrow> isl (read_text f) \<Longrightarrow> isl (load_loop acc fs)"
proof (induction fs arbitrary: acc)
  case Nil
  then show ?case by simp
next
  case (Cons g gs)
  show ?case
  proof (cases "extract_api_elements g")
    case (Inl e)
    then show ?thesis by simp
  next
    case (Inr els)
    then have "\<not> isl (read_text g)"
      by (auto simp: extract_api_elements_def split: sum.splits)
    with Cons.prems have "f \<in> set gs" by auto
    with Cons.IH Cons.prems(2) Inr show ?thesis by simp
  qed
qed

text \<open>
  C3. The claim asks that a file whose read fails is skipped and the batch goes on.
  Neither \<^verbatim>\<open>extract_api_elements\<close> nor \<^verbatim>\<open>load_all_api_elements\<close> has a handler:
  when any file that the glob selects cannot be read, the whole batch ends with the
  exception, whatever the other files hold. (\<^verbatim>\<open>SwiftCodeExampleParser.parse_file\<close> of
  the same script catches the exception of the same call and skips the file.)
\<close>

theorem read_failure_aborts_batch:
  assumes "f \<in> set api_dir" and "endswith (file_name f) ''.swift''" and "isl (read_text f)"
  shows "isl (load_all_api_elements api_dir)"
proof -
  have "f \<in> set (sort_key file_name (glob_swift api_dir))"
    using assms(1,2) by (simp add: glob_swift_def)
  then show ?thesis
    unfolding load_all_api_elements_def using assms(3) by (rule load_loop_fails)
qed

theorem read_failure_aborts_batch_witness:
  "load_all_api_elements
     [\<lparr>file_name = ''a.swift'', read_text = Inr (''@available(iOS 17.0, *)'' @ newline @ ''public struct Foo {}'')\<rparr>,
      \<lparr>file_name = ''b.swift'', read_text = Inl UnicodeDecodeError\<rparr>,
      \<lparr>file_name = ''c.swift'', read_text = Inr (''@available(iOS 17.0, *)'' @ newline @ ''public struct Bar {}'')\<rparr>]
   = Inl UnicodeDecodeError
   \<and> isl (load_all_api_elements
     [\<lparr>file_name = ''a.swift'', read_text = Inr (''@available(iOS 17.0, *)'' @ newline @ ''public struct Foo {}'')\<rparr>,
      \<lparr>file_name = ''b.swift'', read_text = Inl UnicodeDecodeError\<rparr>,
      \<lparr>file_name = ''c.swift'', read_text = Inr (''@available(iOS 17.0, *)'' @ newline @ ''public struct Bar {}'')\<rparr>])
   \<and> map_sum id (map name) (extract_api_elements \<lparr>file_name = ''a.swift'', read_text = Inr (''@available(iOS 17.0, *)'' @ newline @ ''public struct Foo {}'')\<rparr>) = Inr [''Foo'']"
proof -
  let ?a = "\<lparr>file_name = ''a.swift'', read_text = Inr (''@available(iOS 17.0, *)'' @ newline @ ''public struct Foo {}'')\<rparr>"
  let ?b = "\<lparr>file_name = ''b.swift'', read_text = Inl UnicodeDecodeError\<rparr> :: path"
  let ?c = "\<lparr>file_name = ''c.swift'', read_text = Inr (''@available(iOS 17.0, *)'' @ newline @ ''public struct Bar {}'')\<rparr>"
  have 1: "load_all_api_elements [?a, ?b, ?c] = Inl UnicodeDecodeError" by code_simp
  have 2: "isl (load_all_api_elements [?a, ?b, ?c])"
    by (rule read_failure_aborts_batch [of ?b]) (simp, code_simp, simp)
  have 3: "map_sum id (map name) (extract_api_elements ?a) = Inr [''Foo'']" by code_simp
  from 1 2 3 show ?thesis by blast
qed

section \<open>Nesting attribution\<close>









section \<open>Pending buffers\<close>

lemma buffers_update_nesting [simp]:
  "doc_lines (update_nesting line tm s) = doc_lines s"
  "avail_lines (update_nesting line tm s) = avail_lines s"
  by (simp_all add: update_nesting_def Let_def)


lemma elements_after_nesting [simp]: "elements (after_nesting st m s) = elements s"
  by (simp add: after_nesting_def)














section \<open>Normalisation of a declaration line\<close>















section \<open>A scenario\<close>

text \<open>
  C8. Scanning the four lines of the claim gives exactly one element: the struct
  \<open>Foo\<close> (the kind that the specification calls type-struct is the text \<open>struct\<close>
  in the source), with doc \<open>Does X.\<close>, version \<open>(17, 0)\<close>, no parent, and as
  signature the availability line and the trimmed declaration line joined by a newline.
  A file holding these four lines gives the same result.
\<close>

theorem scenario_struct_foo:
  "extract_lines ''Foo.swift''
     [''/// Does X.'', ''@available(iOS 17.0, *)'', ''public struct Foo {'', ''}'']
   = Inr [\<lparr>name = ''Foo'', kind = ''struct'',
            signature = ''@available(iOS 17.0, *)'' @ newline @ ''public struct Foo {'',
            doc = ''Does X.'', ios_introduced = Some (17, 0),
            deprecated = False, unavailable = False,
            source_file = ''Foo.swift'', parent_type = None\<rparr>]
   \<and> extract_api_elements
       \<lparr>file_name = ''Foo.swift'',
          read_text = Inr (''/// Does X.'' @ newline @ ''@available(iOS 17.0, *)'' @ newline
                           @ ''public struct Foo {'' @ newline @ ''}'' @ newline)\<rparr>
     = extract_lines ''Foo.swift''
         [''/// Does X.'', ''@available(iOS 17.0, *)'', ''public struct Foo {'', ''}'']"
proof -
  have a: "extract_lines ''Foo.swift''
     [''/// Does X.'', ''@available(iOS 17.0, *)'', ''public struct Foo {'', ''}'']
   = Inr [\<lparr>name = ''Foo'', kind = ''struct'',
            signature = ''@available(iOS 17.0, *)'' @ newline @ ''public struct Foo {'',
            doc = ''Does X.'', ios_introduced = Some (17, 0),
            deprecated = False, unavailable = False,
            source_file = ''Foo.swift'', parent_type = None\<rparr>]"
    by code_simp
  have b: "extract_api_elements
       \<lparr>file_name = ''Foo.swift'',
          read_text = Inr (''/// Does X.'' @ newline @ ''@available(iOS 17.0, *)'' @ newline
                           @ ''public struct Foo {'' @ newline @ ''}'' @ newline)\<rparr>
     = extract_lines ''Foo.swift''
         [''/// Does X.'', ''@available(iOS 17.0, *)'', ''public struct Foo {'', ''}'']"
    by code_simp
  show ?thesis by (rule conjI [OF a b])
qed

theorem scenario_struct_foo_witness:
  "map_sum id (map full_name)
     (extract_lines ''Foo.swift''
        [''/// Does X.'', ''@available(iOS 17.0, *)'', ''public struct Foo {'', ''}''])
   = Inr [''Foo'']"
  by (simp add: scenario_struct_foo [THEN conjunct1] full_name_def)


section \<open>The order of the output\<close>









section \<open>The nesting stack\<close>

lemma pop_types_top: "pop_types st d = [] \<or> snd (last (pop_types st d)) \<le> d"
proof (induction st d rule: pop_types.induct)
  case (1 st depth)
  show ?case
  proof (cases "st \<noteq> [] \<and> depth < snd (last st)")
    case True
    then have "pop_types st depth = pop_types (butlast st) depth"
      by (subst pop_types.simps) simp
    with "1.IH" [OF True] show ?thesis by simp
  next
    case False
    then have "pop_types st depth = st" by (subst pop_types.simps) auto
    with False show ?thesis by auto
  qed
qed

lemma update_nesting_ok: "nesting_ok (update_nesting line tm s)"
  using pop_types_top by (simp add: nesting_ok_def update_nesting_def Let_def)

lemma nesting_after [simp]:
  "type_stack (after_nesting st m s) = type_stack s"
  "brace_depth (after_nesting st m s) = brace_depth s"
  by (simp_all add: after_nesting_def)

lemma scan_line_ok: "nesting_ok s \<Longrightarrow> scan_line f s line = Inr s' \<Longrightarrow> nesting_ok s'"
proof -
  assume ok: "nesting_ok s" and r: "scan_line f s line = Inr s'"
  have a: "\<And>tm s0 st m. nesting_ok (after_nesting st m (update_nesting line tm s0))"
    using update_nesting_ok by (simp add: nesting_ok_def)
  show ?thesis
    using r ok a update_nesting_ok
    by (auto simp: scan_line_def Let_def split: if_splits option.splits sum.splits prod.splits)
       (auto simp: nesting_ok_def)
qed

lemma scan_lines_ok: "nesting_ok s \<Longrightarrow> scan_lines f s ls = Inr s' \<Longrightarrow> nesting_ok s'"
proof (induction ls arbitrary: s)
  case Nil
  then show ?case by simp
next
  case (Cons l ls)
  from Cons.prems(2) obtain s1 where 1: "scan_line f s l = Inr s1" and 2: "scan_lines f s1 ls = Inr s'"
    by (auto split: sum.splits)
  from scan_line_ok [OF Cons.prems(1) 1] have "nesting_ok s1" .
  then show ?case using 2 by (rule Cons.IH)
qed

text \<open>
  C10. After the brace and stack update of any line, from any state (negative depths
  included), a non-empty stack has on top a recorded depth that does not exceed the
  brace depth; and this holds in every state that a scan from the initial state
  reaches, so the parent lookup of the next line never reads an entry deeper than the
  current depth.
\<close>

theorem nesting_top_below_depth:
  "(type_stack (update_nesting line tm s) \<noteq> []
      \<longrightarrow> snd (last (type_stack (update_nesting line tm s))) \<le> brace_depth (update_nesting line tm s))
   \<and> (scan_lines f init_state ls = Inr s'
      \<longrightarrow> type_stack s' \<noteq> [] \<longrightarrow> snd (last (type_stack s')) \<le> brace_depth s')"
proof (intro conjI impI)
  assume "type_stack (update_nesting line tm s) \<noteq> []"
  then show "snd (last (type_stack (update_nesting line tm s))) \<le> brace_depth (update_nesting line tm s)"
    using update_nesting_ok [of line tm s] by (simp add: nesting_ok_def)
next
  assume r: "scan_lines f init_state ls = Inr s'" and ne: "type_stack s' \<noteq> []"
  have "nesting_ok init_state" by (simp add: nesting_ok_def init_state_def)
  from scan_lines_ok [OF this r] ne
  show "snd (last (type_stack s')) \<le> brace_depth s'" by (simp add: nesting_ok_def)
qed



theorem nesting_top_below_depth_witness:
  "update_nesting ''} } }'' None
     \<lparr>elements = [], doc_lines = [], avail_lines = [],
        type_stack = [(''A'', - 1), (''B'', 2)], brace_depth = 2\<rparr>
   = \<lparr>elements = [], doc_lines = [], avail_lines = [],
        type_stack = [(''A'', - 1)], brace_depth = - 1\<rparr>
   \<and> snd (last (type_stack (update_nesting ''} } }'' None
        \<lparr>elements = [], doc_lines = [], avail_lines = [],
           type_stack = [(''A'', - 1), (''B'', 2)], brace_depth = 2\<rparr>)))
     \<le> brace_depth (update_nesting ''} } }'' None
        \<lparr>elements = [], doc_lines = [], avail_lines = [],
           type_stack = [(''A'', - 1), (''B'', 2)], brace_depth = 2\<rparr>)
   \<and> scan_lines ''a.swift'' init_state [''}'', ''}'', ''public struct A {'']
     = Inr \<lparr>elements = [], doc_lines = [], avail_lines = [],
             type_stack = [(''A'', - 1)], brace_depth = - 1\<rparr>
   \<and> snd (last (type_stack \<lparr>elements = [], doc_lines = [], avail_lines = [],
             type_stack = [(''A'', - 1)], brace_depth = - 1\<rparr>))
     \<le> brace_depth \<lparr>elements = [], doc_lines = [], avail_lines = [],
             type_stack = [(''A'', - 1)], brace_depth = - 1\<rparr>"
proof -
  let ?s = "\<lparr>elements = [], doc_lines = [], avail_lines = [],
        type_stack = [(''A'', - 1), (''B'', 2)], brace_depth = 2\<rparr>"
  let ?t = "\<lparr>elements = [], doc_lines = [], avail_lines = [],
        type_stack = [(''A'', - 1)], brace_depth = - 1\<rparr>"
  have u: "update_nesting ''} } }'' None ?s = ?t" by code_simp
  have ne: "type_stack (update_nesting ''} } }'' None ?s) \<noteq> []" unfolding u by simp
  have c1: "snd (last (type_stack (update_nesting ''} } }'' None ?s)))
     \<le> brace_depth (update_nesting ''} } }'' None ?s)"
    by (rule nesting_top_below_depth [THEN conjunct1, THEN mp, OF ne])
  have r: "scan_lines ''a.swift'' init_state [''}'', ''}'', ''public struct A {''] = Inr ?t"
    by code_simp
  have ne2: "type_stack ?t \<noteq> []" by simp
  have c2: "snd (last (type_stack ?t)) \<le> brace_depth ?t"
    by (rule nesting_top_below_depth [THEN conjunct2, THEN mp, THEN mp, OF r ne2])
  show ?thesis by (rule conjI [OF u conjI [OF c1 conjI [OF r c2]]])
qed

end
